theory Spec2Isabelle
  imports Main "HOL-Library.Sublist"
begin

section \<open>Strings\<close>

text \<open>
  A Python \<open>str\<close> is modelled as a \<open>string\<close>: one \<open>char\<close> stands for one code point
  (below 256), so \<open>length\<close> is Python's \<open>len\<close> and \<open>take 200\<close> is the slice \<open>[:200]\<close>.
\<close>

definition nl :: char where
  "nl = CHR 0x0A"

text \<open>\<open>str.isspace\<close> on one code point below 256.\<close>

definition isspace :: "char \<Rightarrow> bool" where
  "isspace c = ((of_char c :: nat) \<in> {9, 10, 11, 12, 13, 28, 29, 30, 31, 32, 133, 160})"

text \<open>\<open>s.strip()\<close>: drop the whitespace at both ends.\<close>

definition strip :: "string \<Rightarrow> string" where
  "strip s = rev (dropWhile isspace (rev (dropWhile isspace s)))"

text \<open>
  \<open>s.upper()\<close>, one code point at a time. The ASCII letters are mapped as Python maps
  them; any other code point is left as it is. Python sends some of those to other
  non-ASCII code points or to several letters (\<open>SS\<close>, \<open>FL\<close>), never to a string made of the
  letters of \<open>CANCEL\<close>, so the comparison \<open>line.upper() == 'CANCEL'\<close>, the only use of
  \<open>upper\<close> in the program, is decided the same way.
\<close>

definition upper_char :: "char \<Rightarrow> char" where
  "upper_char c =
     (if 97 \<le> (of_char c :: nat) \<and> (of_char c :: nat) \<le> 122
      then char_of ((of_char c :: nat) - 32) else c)"

definition upper :: "string \<Rightarrow> string" where
  "upper s = map upper_char s"

text \<open>\<open>sep.join(parts)\<close>.\<close>

fun join :: "string \<Rightarrow> string list \<Rightarrow> string" where
  "join sep [] = []"
| "join sep [x] = x"
| "join sep (x # y # ys) = x @ sep @ join sep (y # ys)"


section \<open>Configuration\<close>

definition FAQ_SYSTEM_PROMPT :: string where
  "FAQ_SYSTEM_PROMPT =
     ''You are a helpful FAQ assistant. Answer questions '' @ [nl] @
     ''    clearly, concisely, and accurately. If you don't know the answer, say so.''"

definition SUMMARIZE_SYSTEM_PROMPT :: string where
  "SUMMARIZE_SYSTEM_PROMPT =
     ''You are a text summarization expert. Provide '' @ [nl] @
     ''    clear, concise summaries that capture the main points of the given text.''"


section \<open>Exceptions, JSON values, the history file, the console\<close>

text \<open>
  What a Python call can raise. \<open>Error m\<close> is an instance of (a subclass of)
  \<open>Exception\<close> with \<open>str(e) = m\<close>: what \<open>except Exception\<close> catches. \<open>Interrupt\<close> is a
  \<open>KeyboardInterrupt\<close> or \<open>SystemExit\<close>, which derives from \<open>BaseException\<close> only and
  passes through \<open>except Exception\<close>.
\<close>

datatype raised = Error string | Interrupt

datatype 'a outcome = Raises raised | Returns 'a

text \<open>The \<open>AttributeError\<close> of a method call on an object that has no such method.\<close>

definition attribute_error :: "string \<Rightarrow> string \<Rightarrow> raised" where
  "attribute_error type_name attr =
     Error ([CHR 0x27] @ type_name @ [CHR 0x27] @ '' object has no attribute '' @
            [CHR 0x27] @ attr @ [CHR 0x27])"

text \<open>
  The values \<open>json.load\<close> can return and \<open>json.dump\<close> writes. A Python \<open>dict\<close> with string
  keys is an association list, \<open>None\<close> is \<open>JNull\<close>.
\<close>

datatype json =
    JNull
  | JBool bool
  | JInt int
  | JFloat string
  | JStr string
  | JArr "json list"
  | JObj "(string \<times> json) list"

text \<open>\<open>entry[key]\<close> of a dictionary.\<close>

fun field :: "string \<Rightarrow> json \<Rightarrow> json option" where
  "field k (JObj kvs) = map_of kvs k"
| "field k _ = None"

text \<open>\<open>type(v).__name__\<close>, as it appears in the message of an \<open>AttributeError\<close>.\<close>

fun type_name :: "json \<Rightarrow> string" where
  "type_name JNull = ''NoneType''"
| "type_name (JBool _) = ''bool''"
| "type_name (JInt _) = ''int''"
| "type_name (JFloat _) = ''float''"
| "type_name (JStr _) = ''str''"
| "type_name (JArr _) = ''list''"
| "type_name (JObj _) = ''dict''"

text \<open>
  The file \<open>chat_history.json\<close> as the program meets it: \<open>Absent\<close> when
  \<open>os.path.exists\<close> is false; \<open>Unreadable m\<close> when it exists but \<open>open\<close> or \<open>json.load\<close>
  raises an exception with \<open>str(e) = m\<close> (no permission, not JSON, cut short);
  \<open>Holds j\<close> when \<open>json.load\<close> returns \<open>j\<close>. Nothing but the program touches the file
  during a session.
\<close>

datatype disk_file = Absent | Unreadable string | Holds json

text \<open>
  What happens when the program writes the file back. \<open>Open_raises m\<close>: \<open>open(.., 'w')\<close>
  raises and the file stays as it was. \<open>Dump_raises m m'\<close>: the file has been opened, and
  so emptied, and \<open>json.dump\<close> raises on the way; what is left is not a JSON document, and
  reading it raises \<open>m'\<close>.
\<close>

datatype write_outcome = Write_ok | Open_raises string | Dump_raises string string

text \<open>
  The lines printed on the console. The decorated lines (they start with a glyph outside
  ASCII) have a constructor each, with the text that follows the glyph; \<open>Warning\<close> lines
  are plain text.
\<close>

datatype printed =
    Initialized
  | Processing_question
  | Generating_summary
  | Error_line string
  | Warning string

text \<open>
  What one operation finds around it: the clock, already formatted by
  \<open>datetime.now().strftime("%Y-%m-%d %H:%M:%S")\<close>, and the outcome of writing the file.
\<close>

record env =
  now :: string
  write_result :: write_outcome


section \<open>The chatbot\<close>

text \<open>
  The fields of an \<open>AIChatbot\<close> object, with the history file and the console it acts on.
\<close>

record state =
  conversation_history :: "json list"
  current_mode :: "string option"
  history_file :: disk_file
  console :: "printed list"

definition print :: "printed \<Rightarrow> state \<Rightarrow> state" where
  "print line st = st\<lparr>console := console st @ [line]\<rparr>"

text \<open>
  \<open>AIChatbot.__init__\<close>, given \<open>Config.API_KEY\<close> and the world it starts in. The text of
  the error is that of chatbot.py; geminiChatBot.py names its own key there.
\<close>

definition AIChatbot_init :: "string option \<Rightarrow> disk_file \<Rightarrow> printed list \<Rightarrow> raised + state" where
  "AIChatbot_init api_key disk out =
     (if api_key = None \<or> api_key = Some []
      then Inl (Error
        ''OpenAI API key not found! Please set OPENAI_API_KEY environment variable.'')
      else Inr \<lparr>conversation_history = [], current_mode = None,
                history_file = disk, console = out @ [Initialized]\<rparr>)"

subsection \<open>History\<close>

text \<open>The dictionary \<open>entry\<close> built at the start of \<open>_save_to_history\<close>.\<close>

definition make_entry :: "string \<Rightarrow> string option \<Rightarrow> string \<Rightarrow> string \<Rightarrow> json" where
  "make_entry timestamp mode user_input ai_response =
     JObj [
       (''timestamp'', JStr timestamp),
       (''mode'', case mode of None \<Rightarrow> JNull | Some m \<Rightarrow> JStr m),
       (''user_input'', JStr (if length user_input > 200
                              then take 200 user_input @ ''...'' else user_input)),
       (''ai_response'', JStr (if length ai_response > 200
                               then take 200 ai_response @ ''...'' else ai_response))]"

text \<open>
  The first \<open>try\<close> of \<open>_save_to_history\<close>: the value bound to \<open>history\<close>, and the warning
  printed when reading raised.
\<close>

definition load_history :: "state \<Rightarrow> json \<times> state" where
  "load_history st =
     (case history_file st of
        Absent \<Rightarrow> (JArr [], st)
      | Unreadable m \<Rightarrow>
          (JArr [], print (Warning (''Warning: Could not load history file: '' @ m)) st)
      | Holds j \<Rightarrow> (j, st))"

text \<open>The second \<open>try\<close>: write \<open>history\<close> back.\<close>

definition dump_history :: "env \<Rightarrow> json \<Rightarrow> state \<Rightarrow> state" where
  "dump_history ev history st =
     (case write_result ev of
        Write_ok \<Rightarrow> st\<lparr>history_file := Holds history\<rparr>
      | Open_raises m \<Rightarrow>
          print (Warning (''Warning: Could not save to history file: '' @ m)) st
      | Dump_raises m m' \<Rightarrow>
          print (Warning (''Warning: Could not save to history file: '' @ m))
            (st\<lparr>history_file := Unreadable m'\<rparr>))"

text \<open>
  \<open>AIChatbot._save_to_history\<close>. The entry goes to the session list first. Then the
  file is read, the entry is appended to what was read, and the result is written back.
  \<open>history.append(entry)\<close> stands between the two \<open>try\<close> blocks: when \<open>json.load\<close> returned
  something that is not a list, it raises \<open>AttributeError\<close>, which leaves the method.
\<close>

definition save_to_history ::
  "env \<Rightarrow> state \<Rightarrow> string \<Rightarrow> string \<Rightarrow> string option \<Rightarrow> (raised + unit) \<times> state" where
  "save_to_history ev st user_input ai_response mode =
     (let entry = make_entry (now ev) mode user_input ai_response;
          st1 = st\<lparr>conversation_history := conversation_history st @ [entry]\<rparr>;
          (history, st2) = load_history st1
      in case history of
           JArr xs \<Rightarrow> (Inr (), dump_history ev (JArr (xs @ [entry])) st2)
         | _ \<Rightarrow> (Inl (attribute_error (type_name history) ''append''), st2))"

subsection \<open>The provider call (chatbot.py)\<close>

record message =
  role :: string
  content :: string

text \<open>
  \<open>client.chat.completions.create\<close>: from the messages to what the call does. A response
  is its list of choices, each the \<open>message.content\<close> of the choice (\<open>None\<close> when the
  provider sent no text). The model name, the token limit and the temperature are the
  same constants in every call.
\<close>

type_synonym completions = "message list \<Rightarrow> (string option list) outcome"

text \<open>The \<open>except Exception\<close> clause of \<open>send_to_openai\<close>.\<close>

definition handle_exception :: "string \<Rightarrow> raised \<Rightarrow> state \<Rightarrow> (raised + string option) \<times> state" where
  "handle_exception api_name e st =
     (case e of
        Error m \<Rightarrow>
          (Inr None,
           print (Error_line (''Error communicating with '' @ api_name @ '' API: '' @ m)) st)
      | Interrupt \<Rightarrow> (Inl Interrupt, st))"

text \<open>
  The end of the \<open>try\<close> block, the same in both files: save the exchange and return the
  response. An exception that leaves \<open>_save_to_history\<close> is still inside the \<open>try\<close>.
\<close>

definition save_and_return ::
  "string \<Rightarrow> env \<Rightarrow> state \<Rightarrow> string \<Rightarrow> string \<Rightarrow> (raised + string option) \<times> state" where
  "save_and_return api_name ev st user_message ai_response =
     (case save_to_history ev st user_message ai_response (current_mode st) of
        (Inl e, st') \<Rightarrow> handle_exception api_name e st'
      | (Inr _, st') \<Rightarrow> (Inr (Some ai_response), st'))"

text \<open>The list \<open>messages\<close> that \<open>send_to_openai\<close> of chatbot.py prepares.\<close>

definition build_messages :: "string \<Rightarrow> string option \<Rightarrow> message list" where
  "build_messages user_message system_prompt =
     (case system_prompt of
        None \<Rightarrow> []
      | Some p \<Rightarrow> if p = [] then [] else [\<lparr>role = ''system'', content = p\<rparr>])
     @ [\<lparr>role = ''user'', content = user_message\<rparr>]"

text \<open>
  \<open>AIChatbot.send_to_openai\<close> of chatbot.py. \<open>response.choices[0]\<close> raises \<open>IndexError\<close> on
  an empty list, and \<open>.strip()\<close> raises \<open>AttributeError\<close> on a content that is \<open>None\<close>.
\<close>

definition send_to_openai ::
  "completions \<Rightarrow> env \<Rightarrow> state \<Rightarrow> string \<Rightarrow> string option \<Rightarrow> (raised + string option) \<times> state" where
  "send_to_openai create ev st user_message system_prompt =
     (case create (build_messages user_message system_prompt) of
        Raises e \<Rightarrow> handle_exception ''OpenAI'' e st
      | Returns choices \<Rightarrow>
          (case choices of
             [] \<Rightarrow> handle_exception ''OpenAI'' (Error ''list index out of range'') st
           | None # _ \<Rightarrow>
               handle_exception ''OpenAI'' (attribute_error ''NoneType'' ''strip'') st
           | Some text # _ \<Rightarrow>
               save_and_return ''OpenAI'' ev st user_message (strip text)))"

subsection \<open>The provider call (geminiChatBot.py)\<close>

text \<open>
  What the code reads of a response of \<open>client.models.generate_content\<close>: its attribute
  \<open>text\<close> (\<open>None\<close> when it is missing or null) and \<open>str(response)\<close>.
\<close>

record genai_response =
  text_attr :: "string option"
  str_of :: string

type_synonym generate_content = "string \<Rightarrow> genai_response outcome"

text \<open>The single prompt that \<open>send_to_openai\<close> of geminiChatBot.py prepares.\<close>

definition build_prompt :: "string \<Rightarrow> string option \<Rightarrow> string" where
  "build_prompt user_message system_prompt =
     join [nl, nl]
       ((case system_prompt of
           None \<Rightarrow> []
         | Some p \<Rightarrow> if p = [] then [] else [strip p])
        @ [strip user_message])"

text \<open>\<open>AIChatbot.send_to_openai\<close> of geminiChatBot.py.\<close>

definition gemini_send_to_openai ::
  "generate_content \<Rightarrow> env \<Rightarrow> state \<Rightarrow> string \<Rightarrow> string option \<Rightarrow> (raised + string option) \<times> state" where
  "gemini_send_to_openai generate ev st user_message system_prompt =
     (case generate (build_prompt user_message system_prompt) of
        Raises e \<Rightarrow> handle_exception ''Gemini'' e st
      | Returns response \<Rightarrow>
          (let ai_response =
                 (case text_attr response of None \<Rightarrow> str_of response | Some t \<Rightarrow> t)
           in save_and_return ''Gemini'' ev st user_message (strip ai_response)))"

subsection \<open>The two operations\<close>

text \<open>
  \<open>self.client\<close> with what its call does this time: the client of chatbot.py or the one
  of geminiChatBot.py. \<open>self_send_to_openai\<close> is \<open>self.send_to_openai\<close>, the method of the
  file the client belongs to; the rest of the class is the same text in both files.
\<close>

datatype client = OpenAI completions | GenAI generate_content

fun self_send_to_openai ::
  "client \<Rightarrow> env \<Rightarrow> state \<Rightarrow> string \<Rightarrow> string option \<Rightarrow> (raised + string option) \<times> state" where
  "self_send_to_openai (OpenAI create) = send_to_openai create"
| "self_send_to_openai (GenAI generate) = gemini_send_to_openai generate"

text \<open>\<open>AIChatbot.answer_faq\<close>.\<close>

definition answer_faq ::
  "client \<Rightarrow> env \<Rightarrow> state \<Rightarrow> string \<Rightarrow> (raised + string option) \<times> state" where
  "answer_faq cl ev st question =
     self_send_to_openai cl ev
       (print Processing_question (st\<lparr>current_mode := Some ''FAQ''\<rparr>))
       question (Some FAQ_SYSTEM_PROMPT)"

text \<open>The request message \<open>prompt\<close> that \<open>summarize_text\<close> builds from the text.\<close>

definition summarize_prompt :: "string \<Rightarrow> string" where
  "summarize_prompt text =
     ''Please provide a clear and concise summary of the following text:'' @ [nl, nl] @ text"

text \<open>\<open>AIChatbot.summarize_text\<close>.\<close>

definition summarize_text ::
  "client \<Rightarrow> env \<Rightarrow> state \<Rightarrow> string \<Rightarrow> (raised + string option) \<times> state" where
  "summarize_text cl ev st text =
     self_send_to_openai cl ev
       (print Generating_summary (st\<lparr>current_mode := Some ''SUMMARIZE''\<rparr>))
       (summarize_prompt text) (Some SUMMARIZE_SYSTEM_PROMPT)"

subsection \<open>Sessions\<close>

text \<open>
  One turn of the menu loop that reaches the chatbot: the operation with its argument,
  and what the provider, the clock and the disk do during it.
\<close>

datatype operation = Answer_faq string | Summarize_text string

record call =
  operation :: operation
  provider :: client
  around :: env

definition perform :: "call \<Rightarrow> state \<Rightarrow> (raised + string option) \<times> state" where
  "perform c st =
     (case operation c of
        Answer_faq question \<Rightarrow> answer_faq (provider c) (around c) st question
      | Summarize_text text \<Rightarrow> summarize_text (provider c) (around c) st text)"

text \<open>
  The calls of one run of the program, in order, with what each returned. Nothing in
  \<open>main\<close> catches an exception that leaves an operation, so the run ends there.
\<close>

fun run_session :: "call list \<Rightarrow> state \<Rightarrow> (raised + string option) list \<times> state" where
  "run_session [] st = ([], st)"
| "run_session (c # cs) st =
     (case perform c st of
        (Inl e, st') \<Rightarrow> ([Inl e], st')
      | (Inr r, st') \<Rightarrow>
          (case run_session cs st' of (rs, st'') \<Rightarrow> (Inr r # rs, st'')))"

text \<open>An operation is successful when it returns text, not \<open>None\<close>.\<close>

fun successful :: "raised + string option \<Rightarrow> bool" where
  "successful (Inr (Some _)) = True"
| "successful _ = False"


section \<open>The multi-line input collector\<close>

text \<open>
  The loop of \<open>get_multiline_input\<close>. Standard input is the list of the lines still to be
  read; \<open>input()\<close> takes the first one, and raises \<open>EOFError\<close> when there is none. The
  result comes with the lines left unread.
\<close>

fun read_lines ::
  "string list \<Rightarrow> string list \<Rightarrow> nat \<Rightarrow> (raised + string option) \<times> string list" where
  "read_lines [] lines empty_line_count = (Inl (Error ''EOF when reading a line''), [])"
| "read_lines (line # stdin) lines empty_line_count =
     (if upper line = ''CANCEL'' then (Inr None, stdin)
      else if line = [] then
        (if empty_line_count + 1 \<ge> 2
         then (Inr (Some (strip (join [nl] lines))), stdin)
         else read_lines stdin lines (empty_line_count + 1))
      else read_lines stdin (lines @ [line]) 0)"

text \<open>
  \<open>get_multiline_input\<close>. The prompt and the hint are printed before the loop and have
  no part in the result.
\<close>

definition get_multiline_input ::
  "string \<Rightarrow> string list \<Rightarrow> (raised + string option) \<times> string list" where
  "get_multiline_input prompt stdin = read_lines stdin [] 0"


section \<open>Notions used in the statements\<close>

text \<open>
  The list that \<open>_save_to_history\<close> reads from the file and extends: the list the file
  holds, the empty list when the file is absent or unreadable.
\<close>

definition stored :: "disk_file \<Rightarrow> json list" where
  "stored f = (case f of Holds (JArr xs) \<Rightarrow> xs | _ \<Rightarrow> [])"

text \<open>The file holds a JSON document that is not a list.\<close>

definition not_a_list :: "disk_file \<Rightarrow> bool" where
  "not_a_list f = (case f of Holds (JArr xs) \<Rightarrow> False | Holds _ \<Rightarrow> True | _ \<Rightarrow> False)"


text \<open>
  The provider call reports failure: the call raises an error, or (chatbot.py) the
  response has no choice or no text in its first choice, so that reading the text raises.
\<close>

definition reports_failure :: "client \<Rightarrow> string \<Rightarrow> string option \<Rightarrow> bool" where
  "reports_failure cl user_message system_prompt =
     (case cl of
        OpenAI create \<Rightarrow>
          (case create (build_messages user_message system_prompt) of
             Raises (Error _) \<Rightarrow> True
           | Raises Interrupt \<Rightarrow> False
           | Returns [] \<Rightarrow> True
           | Returns (None # _) \<Rightarrow> True
           | Returns (Some _ # _) \<Rightarrow> False)
      | GenAI generate \<Rightarrow>
          (case generate (build_prompt user_message system_prompt) of
             Raises (Error _) \<Rightarrow> True
           | _ \<Rightarrow> False))"

text \<open>
  An entry has its four fields populated: each key is there and its value is not
  \<open>None\<close>.
\<close>

definition populated :: "json \<Rightarrow> bool" where
  "populated e =
     list_all (\<lambda>k. case field k e of None \<Rightarrow> False | Some v \<Rightarrow> v \<noteq> JNull)
       [''timestamp'', ''mode'', ''user_input'', ''ai_response'']"

text \<open>The mode recorded in an entry is one of the two modes.\<close>

definition mode_recorded :: "json \<Rightarrow> bool" where
  "mode_recorded e =
     (field ''mode'' e = Some (JStr ''FAQ'') \<or> field ''mode'' e = Some (JStr ''SUMMARIZE''))"

text \<open>The field \<open>k\<close> of an entry is a string of at most \<open>n\<close> characters.\<close>

definition text_within :: "nat \<Rightarrow> string \<Rightarrow> json \<Rightarrow> bool" where
  "text_within n k e = (case field k e of Some (JStr s) \<Rightarrow> length s \<le> n | _ \<Rightarrow> False)"

text \<open>
  The entry that a call records when the provider's text, stripped, is \<open>a\<close>: the mode and
  the user message are those of the operation.
\<close>

definition entry_of :: "call \<Rightarrow> string \<Rightarrow> json" where
  "entry_of c a =
     (case operation c of
        Answer_faq question \<Rightarrow> make_entry (now (around c)) (Some ''FAQ'') question a
      | Summarize_text text \<Rightarrow>
          make_entry (now (around c)) (Some ''SUMMARIZE'') (summarize_prompt text) a)"

text \<open>The entries of the successful calls of a session, in call order.\<close>

fun entries_of :: "call list \<Rightarrow> (raised + string option) list \<Rightarrow> json list" where
  "entries_of (c # cs) (Inr (Some a) # rs) = entry_of c a # entries_of cs rs"
| "entries_of (c # cs) (_ # rs) = entries_of cs rs"
| "entries_of _ _ = []"


section \<open>Saving an exchange\<close>

lemma save_to_history_session:
  "conversation_history (snd (save_to_history ev st u a m)) =
     conversation_history st @ [make_entry (now ev) m u a]"
  by (auto simp: save_to_history_def load_history_def dump_history_def print_def Let_def
      split: disk_file.splits json.splits write_outcome.splits prod.splits)

lemma save_to_history_written:
  "write_result ev = Write_ok \<Longrightarrow> \<not> not_a_list (history_file st) \<Longrightarrow>
     history_file (snd (save_to_history ev st u a m)) =
       Holds (JArr (stored (history_file st) @ [make_entry (now ev) m u a]))"
  by (auto simp: save_to_history_def load_history_def dump_history_def print_def Let_def
        stored_def not_a_list_def
      split: disk_file.splits json.splits write_outcome.splits prod.splits)

text \<open>
  C1. The entry that \<open>_save_to_history\<close> puts in the session list, and in the list on disk
  when the write succeeds, carries the user input and the response cut to their first
  200 characters and followed by \<open>...\<close> when they are longer than 200 characters, and
  unchanged when they are not.
\<close>

theorem save_to_history_truncates:
  "conversation_history (snd (save_to_history ev st u a m)) =
     conversation_history st @ [make_entry (now ev) m u a] \<and>
   (write_result ev = Write_ok \<and> \<not> not_a_list (history_file st) \<longrightarrow>
      history_file (snd (save_to_history ev st u a m)) =
        Holds (JArr (stored (history_file st) @ [make_entry (now ev) m u a]))) \<and>
   (200 < length u \<longrightarrow>
      field ''user_input'' (make_entry (now ev) m u a) = Some (JStr (take 200 u @ ''...''))) \<and>
   (length u \<le> 200 \<longrightarrow>
      field ''user_input'' (make_entry (now ev) m u a) = Some (JStr u)) \<and>
   (200 < length a \<longrightarrow>
      field ''ai_response'' (make_entry (now ev) m u a) = Some (JStr (take 200 a @ ''...''))) \<and>
   (length a \<le> 200 \<longrightarrow>
      field ''ai_response'' (make_entry (now ev) m u a) = Some (JStr a))"
  by (simp add: save_to_history_session save_to_history_written make_entry_def)

theorem save_to_history_truncates_witness:
  "200 < length (replicate 201 CHR ''q'') \<and> length ''ok'' \<le> 200 \<and>
   field ''user_input''
     (make_entry ''2025-10-01 12:00:00'' (Some ''FAQ'') (replicate 201 CHR ''q'') ''ok'') =
     Some (JStr (replicate 200 CHR ''q'' @ ''...'')) \<and>
   field ''ai_response''
     (make_entry ''2025-10-01 12:00:00'' (Some ''FAQ'') (replicate 201 CHR ''q'') ''ok'') =
     Some (JStr ''ok'') \<and>
   history_file (snd (save_to_history
       \<lparr>now = ''2025-10-01 12:00:00'', write_result = Write_ok\<rparr>
       \<lparr>conversation_history = [], current_mode = Some ''FAQ'', history_file = Absent,
        console = []\<rparr>
       (replicate 201 CHR ''q'') ''ok'' (Some ''FAQ''))) =
     Holds (JArr
       [make_entry ''2025-10-01 12:00:00'' (Some ''FAQ'') (replicate 201 CHR ''q'') ''ok'']) \<and>
   length ''hi'' \<le> 200 \<and> 200 < length (replicate 250 CHR ''r'') \<and>
   field ''user_input''
     (make_entry ''2025-10-01 12:00:01'' (Some ''FAQ'') ''hi'' (replicate 250 CHR ''r'')) =
     Some (JStr ''hi'') \<and>
   field ''ai_response''
     (make_entry ''2025-10-01 12:00:01'' (Some ''FAQ'') ''hi'' (replicate 250 CHR ''r'')) =
     Some (JStr (replicate 200 CHR ''r'' @ ''...''))"
  using save_to_history_truncates
      [of "\<lparr>now = ''2025-10-01 12:00:00'', write_result = Write_ok\<rparr>"
          "\<lparr>conversation_history = [], current_mode = Some ''FAQ'', history_file = Absent,
            console = []\<rparr>"
          "replicate 201 CHR ''q''" "''ok''" "Some ''FAQ''"]
    save_to_history_truncates
      [of "\<lparr>now = ''2025-10-01 12:00:01'', write_result = Write_ok\<rparr>"
          "\<lparr>conversation_history = [], current_mode = Some ''FAQ'', history_file = Absent,
            console = []\<rparr>"
          "''hi''" "replicate 250 CHR ''r''" "Some ''FAQ''"]
  by (simp add: stored_def not_a_list_def)

lemma save_to_history_returns:
  "\<not> not_a_list (history_file st) \<Longrightarrow> fst (save_to_history ev st u a m) = Inr ()"
  by (auto simp: save_to_history_def load_history_def Let_def not_a_list_def
      split: disk_file.splits json.splits prod.splits)

lemma save_to_history_console_absent:
  "history_file st = Absent \<Longrightarrow> write_result ev = Write_ok \<Longrightarrow>
     console (snd (save_to_history ev st u a m)) = console st"
  by (simp add: save_to_history_def load_history_def dump_history_def Let_def)

lemma save_to_history_console_unreadable:
  "history_file st = Unreadable msg \<Longrightarrow>
     Warning (''Warning: Could not load history file: '' @ msg)
       \<in> set (console (snd (save_to_history ev st u a m)))"
  by (simp add: save_to_history_def load_history_def dump_history_def print_def Let_def
      split: write_outcome.splits)

lemma save_to_history_mode:
  "current_mode (snd (save_to_history ev st u a m)) = current_mode st"
  by (auto simp: save_to_history_def load_history_def dump_history_def print_def Let_def
      split: disk_file.splits json.splits write_outcome.splits prod.splits)


section \<open>The provider call\<close>

lemma handle_exception_keeps:
  "conversation_history (snd (handle_exception api e st)) = conversation_history st"
  "history_file (snd (handle_exception api e st)) = history_file st"
  "current_mode (snd (handle_exception api e st)) = current_mode st"
  by (cases e; simp add: handle_exception_def print_def)+

lemma save_and_return_mode:
  "current_mode (snd (save_and_return api ev st u a)) = current_mode st"
  using save_to_history_mode [of ev st u a "current_mode st"]
  by (auto simp: save_and_return_def handle_exception_keeps split: prod.splits sum.splits)

lemma save_and_return_returns:
  "\<not> not_a_list (history_file st) \<Longrightarrow>
     fst (save_and_return api ev st um a) = Inr (Some a)"
  using save_to_history_returns [of st ev um a "current_mode st"]
  by (auto simp: save_and_return_def split: prod.splits sum.splits)

lemma self_send_to_openai_mode:
  "current_mode (snd (self_send_to_openai cl ev st um sp)) = current_mode st"
  by (cases cl)
     (auto simp: send_to_openai_def gemini_send_to_openai_def handle_exception_keeps
        save_and_return_mode Let_def
      split: outcome.splits list.splits option.splits)

lemma failure_leaves_history:
  assumes "reports_failure cl um sp"
  shows "fst (self_send_to_openai cl ev st um sp) = Inr None"
    and "conversation_history (snd (self_send_to_openai cl ev st um sp)) = conversation_history st"
    and "history_file (snd (self_send_to_openai cl ev st um sp)) = history_file st"
  using assms
  by (auto simp: reports_failure_def send_to_openai_def gemini_send_to_openai_def
        handle_exception_def print_def attribute_error_def
      split: client.splits outcome.splits raised.splits list.splits option.splits)

text \<open>
  C5. Whatever the user message, when the provider call raises an error,
  \<open>send_to_openai\<close> (of either file) returns \<open>None\<close> to its caller instead of raising, and
  its only effect is one more line on the console: the diagnostic with the text of the
  error.
\<close>

theorem provider_error_is_caught:
  "(create (build_messages user_message system_prompt) = Raises (Error m) \<longrightarrow>
      send_to_openai create ev st user_message system_prompt =
        (Inr None, print (Error_line (''Error communicating with OpenAI API: '' @ m)) st)) \<and>
   (generate (build_prompt user_message system_prompt) = Raises (Error m) \<longrightarrow>
      gemini_send_to_openai generate ev st user_message system_prompt =
        (Inr None, print (Error_line (''Error communicating with Gemini API: '' @ m)) st))"
  by (simp add: send_to_openai_def gemini_send_to_openai_def handle_exception_def)

theorem provider_error_is_caught_witness:
  "(\<lambda>_. Raises (Error ''Rate limit reached'')) (build_messages ''hi'' None) =
     (Raises (Error ''Rate limit reached'') :: (string option list) outcome) \<and>
   send_to_openai (\<lambda>_. Raises (Error ''Rate limit reached''))
     \<lparr>now = ''2025-10-01 12:00:00'', write_result = Write_ok\<rparr>
     \<lparr>conversation_history = [], current_mode = Some ''FAQ'', history_file = Absent,
      console = [Processing_question]\<rparr>
     ''hi'' None =
     (Inr None,
      \<lparr>conversation_history = [], current_mode = Some ''FAQ'', history_file = Absent,
       console = [Processing_question,
         Error_line ''Error communicating with OpenAI API: Rate limit reached'']\<rparr>) \<and>
   (\<lambda>_. Raises (Error ''Quota exceeded'')) (build_prompt ''hi'' None) =
     (Raises (Error ''Quota exceeded'') :: genai_response outcome) \<and>
   gemini_send_to_openai (\<lambda>_. Raises (Error ''Quota exceeded''))
     \<lparr>now = ''2025-10-01 12:00:00'', write_result = Write_ok\<rparr>
     \<lparr>conversation_history = [], current_mode = Some ''FAQ'', history_file = Absent,
      console = [Processing_question]\<rparr>
     ''hi'' None =
     (Inr None,
      \<lparr>conversation_history = [], current_mode = Some ''FAQ'', history_file = Absent,
       console = [Processing_question,
         Error_line ''Error communicating with Gemini API: Quota exceeded'']\<rparr>)"
  using provider_error_is_caught
      [where create = "\<lambda>_. Raises (Error ''Rate limit reached'')"
         and generate = "\<lambda>_. Raises (Error ''Quota exceeded'')"
         and user_message = "''hi''" and system_prompt = None
         and m = "''Rate limit reached''"
         and ev = "\<lparr>now = ''2025-10-01 12:00:00'', write_result = Write_ok\<rparr>"
         and st = "\<lparr>conversation_history = [], current_mode = Some ''FAQ'',
                     history_file = Absent, console = [Processing_question]\<rparr>"]
    provider_error_is_caught
      [where create = "\<lambda>_. Raises (Error ''Rate limit reached'')"
         and generate = "\<lambda>_. Raises (Error ''Quota exceeded'')"
         and user_message = "''hi''" and system_prompt = None
         and m = "''Quota exceeded''"
         and ev = "\<lparr>now = ''2025-10-01 12:00:00'', write_result = Write_ok\<rparr>"
         and st = "\<lparr>conversation_history = [], current_mode = Some ''FAQ'',
                     history_file = Absent, console = [Processing_question]\<rparr>"]
  by (simp add: print_def)

text \<open>
  C2. When the provider call reports failure, \<open>answer_faq\<close> and \<open>summarize_text\<close> return
  \<open>None\<close>, and the session list and the history file are what they were before the
  call: no entry is appended.
\<close>

theorem failed_call_leaves_history:
  "(reports_failure cl question (Some FAQ_SYSTEM_PROMPT) \<longrightarrow>
      fst (answer_faq cl ev st question) = Inr None \<and>
      conversation_history (snd (answer_faq cl ev st question)) = conversation_history st \<and>
      history_file (snd (answer_faq cl ev st question)) = history_file st) \<and>
   (reports_failure cl (summarize_prompt passage) (Some SUMMARIZE_SYSTEM_PROMPT) \<longrightarrow>
      fst (summarize_text cl ev st passage) = Inr None \<and>
      conversation_history (snd (summarize_text cl ev st passage)) = conversation_history st \<and>
      history_file (snd (summarize_text cl ev st passage)) = history_file st)"
  by (simp add: answer_faq_def summarize_text_def failure_leaves_history print_def)

theorem failed_call_leaves_history_witness:
  "reports_failure (OpenAI (\<lambda>_. Raises (Error ''Connection error.''))) ''What is a list?''
     (Some FAQ_SYSTEM_PROMPT) \<and>
   fst (answer_faq (OpenAI (\<lambda>_. Raises (Error ''Connection error.'')))
     \<lparr>now = ''2025-10-01 12:00:00'', write_result = Write_ok\<rparr>
     \<lparr>conversation_history = [JNull], current_mode = None,
      history_file = Holds (JArr [JNull, JNull]), console = []\<rparr>
     ''What is a list?'') = Inr None \<and>
   conversation_history (snd (answer_faq (OpenAI (\<lambda>_. Raises (Error ''Connection error.'')))
     \<lparr>now = ''2025-10-01 12:00:00'', write_result = Write_ok\<rparr>
     \<lparr>conversation_history = [JNull], current_mode = None,
      history_file = Holds (JArr [JNull, JNull]), console = []\<rparr>
     ''What is a list?'')) = [JNull] \<and>
   history_file (snd (answer_faq (OpenAI (\<lambda>_. Raises (Error ''Connection error.'')))
     \<lparr>now = ''2025-10-01 12:00:00'', write_result = Write_ok\<rparr>
     \<lparr>conversation_history = [JNull], current_mode = None,
      history_file = Holds (JArr [JNull, JNull]), console = []\<rparr>
     ''What is a list?'')) = Holds (JArr [JNull, JNull]) \<and>
   reports_failure (OpenAI (\<lambda>_. Returns [])) (summarize_prompt ''Some long text.'')
     (Some SUMMARIZE_SYSTEM_PROMPT) \<and>
   fst (summarize_text (OpenAI (\<lambda>_. Returns []))
     \<lparr>now = ''2025-10-01 12:00:00'', write_result = Write_ok\<rparr>
     \<lparr>conversation_history = [JNull], current_mode = None,
      history_file = Holds (JArr [JNull, JNull]), console = []\<rparr>
     ''Some long text.'') = Inr None \<and>
   conversation_history (snd (summarize_text (OpenAI (\<lambda>_. Returns []))
     \<lparr>now = ''2025-10-01 12:00:00'', write_result = Write_ok\<rparr>
     \<lparr>conversation_history = [JNull], current_mode = None,
      history_file = Holds (JArr [JNull, JNull]), console = []\<rparr>
     ''Some long text.'')) = [JNull] \<and>
   history_file (snd (summarize_text (OpenAI (\<lambda>_. Returns []))
     \<lparr>now = ''2025-10-01 12:00:00'', write_result = Write_ok\<rparr>
     \<lparr>conversation_history = [JNull], current_mode = None,
      history_file = Holds (JArr [JNull, JNull]), console = []\<rparr>
     ''Some long text.'')) = Holds (JArr [JNull, JNull])"
  using failed_call_leaves_history
      [where cl = "OpenAI (\<lambda>_. Raises (Error ''Connection error.''))"
         and question = "''What is a list?''"
         and ev = "\<lparr>now = ''2025-10-01 12:00:00'', write_result = Write_ok\<rparr>"
         and st = "\<lparr>conversation_history = [JNull], current_mode = None,
            history_file = Holds (JArr [JNull, JNull]), console = []\<rparr>"]
    failed_call_leaves_history
      [where cl = "OpenAI (\<lambda>_. Returns [])" and passage = "''Some long text.''"
         and ev = "\<lparr>now = ''2025-10-01 12:00:00'', write_result = Write_ok\<rparr>"
         and st = "\<lparr>conversation_history = [JNull], current_mode = None,
            history_file = Holds (JArr [JNull, JNull]), console = []\<rparr>"]
  by (simp add: reports_failure_def)

text \<open>
  C3, as the code has it. \<open>summarize_text\<close> sets the mode to \<open>SUMMARIZE\<close> (and it is still
  so on return), calls \<open>send_to_openai\<close> with the summarization system prompt and the
  request message \<open>Please provide a clear and concise summary of the following text:\<close>
  followed by an empty line and the text, and returns what that call returns. In
  chatbot.py the provider is asked once, with the system message and this user message.
\<close>

theorem summarize_text_request:
  "summarize_text cl ev st passage =
     self_send_to_openai cl ev
       (print Generating_summary (st\<lparr>current_mode := Some ''SUMMARIZE''\<rparr>))
       (''Please provide a clear and concise summary of the following text:'' @ [nl, nl]
          @ passage)
       (Some SUMMARIZE_SYSTEM_PROMPT) \<and>
   current_mode (snd (summarize_text cl ev st passage)) = Some ''SUMMARIZE'' \<and>
   summarize_text (OpenAI create) ev st passage =
     summarize_text
       (OpenAI (\<lambda>_. create
          [\<lparr>role = ''system'', content = SUMMARIZE_SYSTEM_PROMPT\<rparr>,
           \<lparr>role = ''user'',
            content = ''Please provide a clear and concise summary of the following text:''
                      @ [nl, nl] @ passage\<rparr>]))
       ev st passage"
  by (simp add: summarize_text_def summarize_prompt_def self_send_to_openai_mode print_def
        send_to_openai_def build_messages_def SUMMARIZE_SYSTEM_PROMPT_def)

text \<open>
  C3, as the claim words it, fails: the request message built for the text \<open>abc\<close> is not
  \<open>provide a summary of the following text:\<close> followed by an empty line and \<open>abc\<close>.
\<close>

theorem summarize_text_request_counterexample:
  "summarize_prompt ''abc'' \<noteq> ''provide a summary of the following text:'' @ [nl, nl] @ ''abc''"
  by (simp add: summarize_prompt_def)

text \<open>
  C7. When the history file is missing, or is there and cannot be read or parsed,
  \<open>_save_to_history\<close> returns normally; the entry is in the session list; the list handed
  to the write is the single new entry, which is what the file holds when the write
  succeeds; an unreadable file gives the warning on the console and a missing one gives
  none; and \<open>send_to_openai\<close> still returns the response to its caller, whatever the
  write does.
\<close>

theorem missing_or_unreadable_file:
  "(history_file st = Absent \<or> history_file st = Unreadable msg) \<longrightarrow>
     fst (save_to_history ev st u a m) = Inr () \<and>
     conversation_history (snd (save_to_history ev st u a m)) =
       conversation_history st @ [make_entry (now ev) m u a] \<and>
     (write_result ev = Write_ok \<longrightarrow>
        history_file (snd (save_to_history ev st u a m)) =
          Holds (JArr [make_entry (now ev) m u a])) \<and>
     (history_file st = Unreadable msg \<longrightarrow>
        Warning (''Warning: Could not load history file: '' @ msg)
          \<in> set (console (snd (save_to_history ev st u a m)))) \<and>
     (history_file st = Absent \<and> write_result ev = Write_ok \<longrightarrow>
        console (snd (save_to_history ev st u a m)) = console st) \<and>
     (create (build_messages u system_prompt) = Returns (Some reply # choices) \<longrightarrow>
        fst (send_to_openai create ev st u system_prompt) = Inr (Some (strip reply)))"
proof
  assume f: "history_file st = Absent \<or> history_file st = Unreadable msg"
  then have ok: "\<not> not_a_list (history_file st)"
    by (auto simp: not_a_list_def)
  from f have e: "stored (history_file st) = []"
    by (auto simp: stored_def)
  have "fst (save_to_history ev st u a m) = Inr ()"
    using ok by (rule save_to_history_returns)
  moreover have "write_result ev = Write_ok \<longrightarrow>
        history_file (snd (save_to_history ev st u a m)) =
          Holds (JArr [make_entry (now ev) m u a])"
    using save_to_history_written [OF _ ok, of ev u a m] e by simp
  moreover have "create (build_messages u system_prompt) = Returns (Some reply # choices) \<longrightarrow>
        fst (send_to_openai create ev st u system_prompt) = Inr (Some (strip reply))"
    using save_and_return_returns [OF ok] by (simp add: send_to_openai_def)
  moreover have "history_file st = Unreadable msg \<longrightarrow>
        Warning (''Warning: Could not load history file: '' @ msg)
          \<in> set (console (snd (save_to_history ev st u a m)))"
    using save_to_history_console_unreadable [of st msg ev u a m] by blast
  moreover have "history_file st = Absent \<and> write_result ev = Write_ok \<longrightarrow>
        console (snd (save_to_history ev st u a m)) = console st"
    using save_to_history_console_absent [of st ev u a m] by blast
  moreover note save_to_history_session [of ev st u a m]
  ultimately show "fst (save_to_history ev st u a m) = Inr () \<and>
     conversation_history (snd (save_to_history ev st u a m)) =
       conversation_history st @ [make_entry (now ev) m u a] \<and>
     (write_result ev = Write_ok \<longrightarrow>
        history_file (snd (save_to_history ev st u a m)) =
          Holds (JArr [make_entry (now ev) m u a])) \<and>
     (history_file st = Unreadable msg \<longrightarrow>
        Warning (''Warning: Could not load history file: '' @ msg)
          \<in> set (console (snd (save_to_history ev st u a m)))) \<and>
     (history_file st = Absent \<and> write_result ev = Write_ok \<longrightarrow>
        console (snd (save_to_history ev st u a m)) = console st) \<and>
     (create (build_messages u system_prompt) = Returns (Some reply # choices) \<longrightarrow>
        fst (send_to_openai create ev st u system_prompt) = Inr (Some (strip reply)))"
    by blast
qed

theorem missing_or_unreadable_file_witness:
  "save_to_history \<lparr>now = ''2025-10-01 12:00:00'', write_result = Write_ok\<rparr>
     \<lparr>conversation_history = [], current_mode = Some ''FAQ'',
      history_file = Unreadable ''Expecting value: line 1 column 1 (char 0)'',
      console = []\<rparr>
     ''hi'' ''hello'' (Some ''FAQ'') =
     (Inr (),
      \<lparr>conversation_history = [make_entry ''2025-10-01 12:00:00'' (Some ''FAQ'') ''hi'' ''hello''],
       current_mode = Some ''FAQ'',
       history_file =
         Holds (JArr [make_entry ''2025-10-01 12:00:00'' (Some ''FAQ'') ''hi'' ''hello'']),
       console = [Warning
         ''Warning: Could not load history file: Expecting value: line 1 column 1 (char 0)'']\<rparr>) \<and>
   save_to_history \<lparr>now = ''2025-10-01 12:00:00'', write_result = Write_ok\<rparr>
     \<lparr>conversation_history = [], current_mode = Some ''FAQ'', history_file = Absent,
      console = []\<rparr>
     ''hi'' ''hello'' (Some ''FAQ'') =
     (Inr (),
      \<lparr>conversation_history = [make_entry ''2025-10-01 12:00:00'' (Some ''FAQ'') ''hi'' ''hello''],
       current_mode = Some ''FAQ'',
       history_file =
         Holds (JArr [make_entry ''2025-10-01 12:00:00'' (Some ''FAQ'') ''hi'' ''hello'']),
       console = []\<rparr>) \<and>
   fst (send_to_openai (\<lambda>_. Returns [Some '' hello '']) 
     \<lparr>now = ''2025-10-01 12:00:00'', write_result = Open_raises ''Permission denied''\<rparr>
     \<lparr>conversation_history = [], current_mode = Some ''FAQ'', history_file = Absent,
      console = []\<rparr> ''hi'' None) = Inr (Some ''hello'')"
  using missing_or_unreadable_file
      [where st = "\<lparr>conversation_history = [], current_mode = Some ''FAQ'',
            history_file = Unreadable ''Expecting value: line 1 column 1 (char 0)'',
            console = []\<rparr>"
         and msg = "''Expecting value: line 1 column 1 (char 0)''"
         and ev = "\<lparr>now = ''2025-10-01 12:00:00'', write_result = Write_ok\<rparr>"
         and u = "''hi''" and a = "''hello''" and m = "Some ''FAQ''"]
    missing_or_unreadable_file
      [where st = "\<lparr>conversation_history = [], current_mode = Some ''FAQ'',
            history_file = Absent, console = []\<rparr>"
         and ev = "\<lparr>now = ''2025-10-01 12:00:00'', write_result = Write_ok\<rparr>"
         and u = "''hi''" and a = "''hello''" and m = "Some ''FAQ''"]
    missing_or_unreadable_file
      [where st = "\<lparr>conversation_history = [], current_mode = Some ''FAQ'',
            history_file = Absent, console = []\<rparr>"
         and ev = "\<lparr>now = ''2025-10-01 12:00:00'',
                     write_result = Open_raises ''Permission denied''\<rparr>"
         and u = "''hi''" and system_prompt = None
         and create = "\<lambda>_. Returns [Some '' hello '']" and reply = "'' hello ''"
         and choices = "[]"]
  by (simp add: save_to_history_def load_history_def dump_history_def print_def
        strip_def isspace_def Let_def)

section \<open>The multi-line input collector\<close>

lemma isspace_nl: "isspace nl"
  by (simp add: isspace_def nl_def)

lemma strip_sublist: "sublist (strip s) s"
proof -
  have "sublist (dropWhile isspace (rev (dropWhile isspace s))) (rev (dropWhile isspace s))"
    by (rule sublist_dropWhile)
  then have "sublist (strip s) (dropWhile isspace s)"
    by (simp add: strip_def sublist_rev_left)
  moreover have "sublist (dropWhile isspace s) s"
    by (rule sublist_dropWhile)
  ultimately show ?thesis
    by (rule sublist_order.order.trans)
qed

lemma strip_ends:
  assumes "strip s \<noteq> []"
  shows "\<not> isspace (hd (strip s))" and "\<not> isspace (last (strip s))"
proof -
  let ?ys = "dropWhile isspace s"
  let ?zs = "dropWhile isspace (rev ?ys)"
  from assms have zs: "?zs \<noteq> []"
    by (simp add: strip_def)
  have ys: "?ys \<noteq> []"
  proof
    assume "?ys = []"
    with zs show False by (simp del: dropWhile_eq_Nil_conv)
  qed
  have "\<not> isspace (hd ?zs)"
    using zs by (rule hd_dropWhile)
  then show "\<not> isspace (last (strip s))"
    by (simp add: strip_def last_rev)
  have "suffix ?zs (rev ?ys)"
    by (rule suffix_dropWhile)
  then obtain ps where "rev ?ys = ps @ ?zs"
    by (auto simp: suffix_def)
  then have "last (rev ?ys) = last ?zs"
    using zs by (metis last_appendR)
  then have "last ?zs = hd ?ys"
    by (simp add: last_rev)
  moreover have "\<not> isspace (hd ?ys)"
    using ys by (rule hd_dropWhile)
  ultimately show "\<not> isspace (hd (strip s))"
    by (simp add: strip_def hd_rev)
qed

lemma hd_join: "y \<noteq> [] \<Longrightarrow> hd (join sep (y # ys)) = hd y"
  by (cases ys) auto

lemma no_blank_single: "nl \<notin> set x \<Longrightarrow> \<not> sublist [nl, nl] x"
  by (auto simp: sublist_def)

lemma join_no_blank:
  "\<forall>l\<in>set ls. l \<noteq> [] \<and> nl \<notin> set l \<Longrightarrow> \<not> sublist [nl, nl] (join [nl] ls)"
proof (induction "[nl]" ls rule: join.induct)
  case 1
  then show ?case by simp
next
  case (2 x)
  then show ?case by (simp add: no_blank_single)
next
  case (3 x y ys)
  let ?J = "join [nl] (y # ys)"
  from 3 have x: "nl \<notin> set x" and y: "y \<noteq> []" "nl \<notin> set y"
    and J: "\<not> sublist [nl, nl] ?J"
    by simp_all
  from y have "hd ?J = hd y" "?J \<noteq> []"
    by (cases ys; simp)+
  with y have hdJ: "hd ?J \<noteq> nl" "?J \<noteq> []"
    by (auto dest: hd_in_set)
  have p: "\<not> prefix [nl, nl] (nl # ?J)"
    using hdJ by (cases ?J) auto
  have "\<not> sublist [nl, nl] (x @ nl # ?J)"
  proof
    assume "sublist [nl, nl] (x @ nl # ?J)"
    then consider "sublist [nl, nl] x" | "sublist [nl, nl] (nl # ?J)"
      | xs1 xs2 where "[nl, nl] = xs1 @ xs2" "suffix xs1 x" "prefix xs2 (nl # ?J)"
      unfolding sublist_append by blast
    then show False
    proof cases
      case 1
      with x show False by (simp add: no_blank_single)
    next
      case 2
      with p J show False by (simp add: sublist_Cons_right)
    next
      case 3
      show False
      proof (cases xs1)
        case Nil
        with 3 p show False by simp
      next
        case (Cons c cs)
        with 3(1) have "c = nl" by simp
        with Cons 3(2) have "nl \<in> set x" by (auto simp: suffix_def)
        with x show False by simp
      qed
    qed
  qed
  then show ?case by simp
qed

lemma read_lines_result:
  "read_lines stdin lines n = (Inr (Some t), rest) \<Longrightarrow>
     \<exists>consumed. stdin = consumed @ rest \<and>
       t = strip (join [nl] (lines @ filter (\<lambda>l. l \<noteq> []) consumed))"
proof (induction stdin arbitrary: lines n)
  case Nil
  then show ?case by simp
next
  case (Cons line stdin)
  show ?case
  proof (cases "upper line = ''CANCEL''")
    case True
    with Cons.prems show ?thesis by simp
  next
    case notc: False
    show ?thesis
    proof (cases "line = []")
      case False
      with notc Cons.prems have "read_lines stdin (lines @ [line]) 0 = (Inr (Some t), rest)"
        by simp
      from Cons.IH [OF this] obtain consumed where
        "stdin = consumed @ rest"
        "t = strip (join [nl] ((lines @ [line]) @ filter (\<lambda>l. l \<noteq> []) consumed))"
        by blast
      with False have "line # stdin = (line # consumed) @ rest \<and>
          t = strip (join [nl] (lines @ filter (\<lambda>l. l \<noteq> []) (line # consumed)))"
        by simp
      then show ?thesis by blast
    next
      case True
      show ?thesis
      proof (cases "n + 1 \<ge> 2")
        case True
        with \<open>line = []\<close> notc Cons.prems have "t = strip (join [nl] lines)" "rest = stdin"
          by simp_all
        with \<open>line = []\<close> have "line # stdin = [line] @ rest \<and>
            t = strip (join [nl] (lines @ filter (\<lambda>l. l \<noteq> []) [line]))"
          by simp
        then show ?thesis by blast
      next
        case False
        with \<open>line = []\<close> notc Cons.prems
        have "read_lines stdin lines (n + 1) = (Inr (Some t), rest)"
          by simp
        from Cons.IH [OF this] obtain consumed where
          "stdin = consumed @ rest"
          "t = strip (join [nl] (lines @ filter (\<lambda>l. l \<noteq> []) consumed))"
          by blast
        with \<open>line = []\<close> have "line # stdin = (line # consumed) @ rest \<and>
            t = strip (join [nl] (lines @ filter (\<lambda>l. l \<noteq> []) (line # consumed)))"
          by simp
        then show ?thesis by blast
      qed
    qed
  qed
qed

text \<open>
  C4. The lines \<open>line1\<close>, \<open>line2\<close> and two empty lines give the text \<open>line1\<close>, newline,
  \<open>line2\<close>. A first line that is \<open>CANCEL\<close> in any mix of upper and lower case gives the
  result \<open>None\<close>, whatever follows; two empty lines alone give the empty string, and the
  two results are different.
\<close>

theorem collector_terminator_and_cancel:
  "get_multiline_input prompt (''line1'' # ''line2'' # [] # [] # rest) =
     (Inr (Some (''line1'' @ [nl] @ ''line2'')), rest) \<and>
   (upper line = ''CANCEL'' \<longrightarrow>
      get_multiline_input prompt (line # rest) = (Inr None, rest)) \<and>
   get_multiline_input prompt ([] # [] # rest) = (Inr (Some []), rest) \<and>
   (Inr None :: raised + string option) \<noteq> Inr (Some [])"
  by (simp add: get_multiline_input_def upper_def strip_def isspace_def nl_def)

theorem collector_terminator_and_cancel_witness:
  "upper ''cancel'' = ''CANCEL'' \<and>
   get_multiline_input ''Paste or type the text you want to summarize:''
     [''cancel'', ''line1'', [], []] = (Inr None, [''line1'', [], []]) \<and>
   upper ''Cancel'' = ''CANCEL'' \<and>
   get_multiline_input ''Paste or type the text you want to summarize:''
     [''Cancel''] = (Inr None, [])"
proof -
  have a: "upper ''cancel'' = ''CANCEL''" and b: "upper ''Cancel'' = ''CANCEL''"
    by code_simp+
  show ?thesis
    using a b
      collector_terminator_and_cancel
        [where line = "''cancel''" and rest = "[''line1'', [], []]"
           and prompt = "''Paste or type the text you want to summarize:''"]
      collector_terminator_and_cancel
        [where line = "''Cancel''" and rest = "[]"
           and prompt = "''Paste or type the text you want to summarize:''"]
    by blast
qed

text \<open>
  C9. An empty line between two lines is dropped; a line of one space is not empty: it is
  kept and starts the count of empty lines again; the result is stripped. In general the
  returned text is the lines read up to the terminator, without the empty ones, joined by
  newlines and stripped: it has no whitespace at either end, does not begin or end with a
  newline and, the input lines having no newline in them, has no two newlines in a row,
  that is, no blank line.
\<close>

theorem collector_drops_blank_lines:
  "get_multiline_input prompt (''a'' # [] # ''b'' # [] # [] # rest) =
     (Inr (Some (''a'' @ [nl] @ ''b'')), rest) \<and>
   get_multiline_input prompt (''a'' # [] # '' '' # [] # ''b'' # [] # [] # rest) =
     (Inr (Some (''a'' @ [nl] @ '' '' @ [nl] @ ''b'')), rest) \<and>
   get_multiline_input prompt (''  a '' # [] # [] # rest) = (Inr (Some ''a''), rest) \<and>
   (get_multiline_input prompt stdin = (Inr (Some t), rest) \<longrightarrow>
      (\<exists>consumed. stdin = consumed @ rest \<and>
         t = strip (join [nl] (filter (\<lambda>l. l \<noteq> []) consumed))) \<and>
      (t = [] \<or> \<not> isspace (hd t) \<and> \<not> isspace (last t)) \<and>
      \<not> prefix [nl] t \<and> \<not> suffix [nl] t \<and>
      ((\<forall>l\<in>set stdin. nl \<notin> set l) \<longrightarrow> \<not> sublist [nl, nl] t))"
proof -
  have ex: "get_multiline_input prompt (''a'' # [] # ''b'' # [] # [] # rest) =
     (Inr (Some (''a'' @ [nl] @ ''b'')), rest) \<and>
   get_multiline_input prompt (''a'' # [] # '' '' # [] # ''b'' # [] # [] # rest) =
     (Inr (Some (''a'' @ [nl] @ '' '' @ [nl] @ ''b'')), rest) \<and>
   get_multiline_input prompt (''  a '' # [] # [] # rest) = (Inr (Some ''a''), rest)"
    by (simp add: get_multiline_input_def upper_def strip_def isspace_def nl_def)
  have gen: "(\<exists>consumed. stdin = consumed @ rest \<and>
         t = strip (join [nl] (filter (\<lambda>l. l \<noteq> []) consumed))) \<and>
      (t = [] \<or> \<not> isspace (hd t) \<and> \<not> isspace (last t)) \<and>
      \<not> prefix [nl] t \<and> \<not> suffix [nl] t \<and>
      ((\<forall>l\<in>set stdin. nl \<notin> set l) \<longrightarrow> \<not> sublist [nl, nl] t)"
    if r: "get_multiline_input prompt stdin = (Inr (Some t), rest)"
  proof -
    from r have "read_lines stdin [] 0 = (Inr (Some t), rest)"
      by (simp add: get_multiline_input_def)
    from read_lines_result [OF this] obtain consumed where
      c: "stdin = consumed @ rest"
      and t: "t = strip (join [nl] (filter (\<lambda>l. l \<noteq> []) consumed))"
      by auto
    let ?ls = "filter (\<lambda>l. l \<noteq> []) consumed"
    have ends: "t = [] \<or> \<not> isspace (hd t) \<and> \<not> isspace (last t)"
      using strip_ends [of "join [nl] ?ls"] t by blast
    have pre: "\<not> prefix [nl] t"
    proof
      assume "prefix [nl] t"
      then have "t \<noteq> []" "hd t = nl" by (auto simp: prefix_def)
      with ends isspace_nl show False by simp
    qed
    have suf: "\<not> suffix [nl] t"
    proof
      assume "suffix [nl] t"
      then have "t \<noteq> []" "last t = nl" by (auto simp: suffix_def)
      with ends isspace_nl show False by simp
    qed
    have blank: "\<not> sublist [nl, nl] t" if "\<forall>l\<in>set stdin. nl \<notin> set l"
    proof
      assume "sublist [nl, nl] t"
      moreover have "sublist t (join [nl] ?ls)"
        unfolding t by (rule strip_sublist)
      ultimately have "sublist [nl, nl] (join [nl] ?ls)"
        by (rule sublist_order.order.trans)
      moreover have "\<forall>l\<in>set ?ls. l \<noteq> [] \<and> nl \<notin> set l"
        using that c by auto
      ultimately show False
        using join_no_blank by blast
    qed
    from c t ends pre suf blank show ?thesis by blast
  qed
  from ex gen show ?thesis by blast
qed

theorem collector_drops_blank_lines_witness:
  "get_multiline_input ''Paste:'' [''a'', [], '' '', [], ''b'', [], [], ''4''] =
     (Inr (Some (''a'' @ [nl] @ '' '' @ [nl] @ ''b'')), [''4'']) \<and>
   (\<exists>consumed. [''a'', [], '' '', [], ''b'', [], [], ''4''] = consumed @ [''4''] \<and>
      ''a'' @ [nl] @ '' '' @ [nl] @ ''b'' =
        strip (join [nl] (filter (\<lambda>l. l \<noteq> []) consumed))) \<and>
   \<not> prefix [nl] (''a'' @ [nl] @ '' '' @ [nl] @ ''b'') \<and>
   \<not> suffix [nl] (''a'' @ [nl] @ '' '' @ [nl] @ ''b'') \<and>
   list_all (\<lambda>l. nl \<notin> set l) [''a'', [], '' '', [], ''b'', [], [], ''4''] \<and>
   \<not> sublist [nl, nl] (''a'' @ [nl] @ '' '' @ [nl] @ ''b'')"
proof -
  have r: "get_multiline_input ''Paste:'' [''a'', [], '' '', [], ''b'', [], [], ''4''] =
     (Inr (Some (''a'' @ [nl] @ '' '' @ [nl] @ ''b'')), [''4''])"
    by (simp add: get_multiline_input_def upper_def strip_def isspace_def nl_def)
  have h: "\<forall>l\<in>set [''a'', [], '' '', [], ''b'', [], [], ''4'']. nl \<notin> set l"
    by (simp add: nl_def)
  have h': "list_all (\<lambda>l. nl \<notin> set l) [''a'', [], '' '', [], ''b'', [], [], ''4'']"
    by (simp add: nl_def)
  show ?thesis
    using r h h'
      collector_drops_blank_lines
        [where prompt = "''Paste:''" and rest = "[''4'']"
           and stdin = "[''a'', [], '' '', [], ''b'', [], [], ''4'']"
           and t = "''a'' @ [nl] @ '' '' @ [nl] @ ''b''"]
    by blast
qed

section \<open>Sessions\<close>

lemma handle_exception_unsuccessful: "\<not> successful (fst (handle_exception api e st))"
  by (cases e) (simp_all add: handle_exception_def)

lemma save_to_history_raises:
  "not_a_list (history_file st) \<Longrightarrow>
     \<exists>msg. fst (save_to_history ev st u a m) = Inl (Error msg)"
  by (auto simp: save_to_history_def load_history_def Let_def not_a_list_def
        attribute_error_def
      split: disk_file.splits json.splits prod.splits)

lemma save_to_history_not_written:
  "not_a_list (history_file st) \<Longrightarrow>
     history_file (snd (save_to_history ev st u a m)) = history_file st"
  by (auto simp: save_to_history_def load_history_def Let_def not_a_list_def
      split: disk_file.splits json.splits prod.splits)

lemma save_to_history_file:
  "\<not> not_a_list (history_file st) \<Longrightarrow>
     history_file (snd (save_to_history ev st u a m)) =
       (case write_result ev of
          Write_ok \<Rightarrow> Holds (JArr (stored (history_file st) @ [make_entry (now ev) m u a]))
        | Open_raises _ \<Rightarrow> history_file st
        | Dump_raises _ msg \<Rightarrow> Unreadable msg)"
  by (auto simp: save_to_history_def load_history_def dump_history_def print_def Let_def
        stored_def not_a_list_def
      split: disk_file.splits json.splits write_outcome.splits prod.splits)

lemma save_and_return_session:
  "conversation_history (snd (save_and_return api ev st um a)) =
     conversation_history st @ [make_entry (now ev) (current_mode st) um a]"
  using save_to_history_session [of ev st um a "current_mode st"]
  by (auto simp: save_and_return_def handle_exception_keeps split: prod.splits sum.splits)

lemma save_and_return_not_a_list:
  assumes "not_a_list (history_file st)"
  shows "history_file (snd (save_and_return api ev st um a)) = history_file st"
    and "\<not> successful (fst (save_and_return api ev st um a))"
  using save_to_history_raises [OF assms, of ev um a "current_mode st"]
    save_to_history_not_written [OF assms, of ev um a "current_mode st"]
  by (auto simp: save_and_return_def handle_exception_keeps handle_exception_unsuccessful
      split: prod.splits sum.splits)

lemma save_and_return_file:
  "\<not> not_a_list (history_file st) \<Longrightarrow>
     history_file (snd (save_and_return api ev st um a)) =
       (case write_result ev of
          Write_ok \<Rightarrow>
            Holds (JArr (stored (history_file st) @
              [make_entry (now ev) (current_mode st) um a]))
        | Open_raises _ \<Rightarrow> history_file st
        | Dump_raises _ msg \<Rightarrow> Unreadable msg)"
  using save_to_history_file [of st ev um a "current_mode st"]
    save_to_history_returns [of st ev um a "current_mode st"]
  by (auto simp: save_and_return_def split: prod.splits sum.splits)

lemma self_send_to_openai_cases:
  "(\<exists>api e. self_send_to_openai cl ev st um sp = handle_exception api e st) \<or>
   (\<exists>api a. self_send_to_openai cl ev st um sp = save_and_return api ev st um a)"
  by (cases cl)
     (auto simp: send_to_openai_def gemini_send_to_openai_def Let_def
      split: outcome.splits list.splits option.splits)

text \<open>What one call does to the session list and to the file.\<close>

lemma perform_cases:
  obtains
    (failed) "\<not> successful (fst (perform c st))"
      "conversation_history (snd (perform c st)) = conversation_history st"
      "history_file (snd (perform c st)) = history_file st"
  | (blocked) a where "not_a_list (history_file st)"
      "\<not> successful (fst (perform c st))"
      "conversation_history (snd (perform c st)) = conversation_history st @ [entry_of c a]"
      "history_file (snd (perform c st)) = history_file st"
  | (saved) a where "\<not> not_a_list (history_file st)"
      "fst (perform c st) = Inr (Some a)"
      "conversation_history (snd (perform c st)) = conversation_history st @ [entry_of c a]"
      "history_file (snd (perform c st)) =
         (case write_result (around c) of
            Write_ok \<Rightarrow> Holds (JArr (stored (history_file st) @ [entry_of c a]))
          | Open_raises _ \<Rightarrow> history_file st
          | Dump_raises _ msg \<Rightarrow> Unreadable msg)"
proof -
  obtain st1 um sp where
    p: "perform c st = self_send_to_openai (provider c) (around c) st1 um sp"
    and h: "conversation_history st1 = conversation_history st"
    and f: "history_file st1 = history_file st"
    and e: "\<And>a. make_entry (now (around c)) (current_mode st1) um a = entry_of c a"
    by (cases "operation c")
       (auto simp: perform_def answer_faq_def summarize_text_def print_def entry_of_def)
  from self_send_to_openai_cases [of "provider c" "around c" st1 um sp]
  consider api e where "perform c st = handle_exception api e st1"
    | api a where "perform c st = save_and_return api (around c) st1 um a"
    unfolding p by blast
  then show thesis
  proof cases
    case 1
    then show thesis
      using failed h f by (simp add: handle_exception_keeps handle_exception_unsuccessful)
  next
    case 2
    show thesis
    proof (cases "not_a_list (history_file st)")
      case True
      with 2 show thesis
        using blocked [of a] h f e [of a]
          save_and_return_not_a_list [of st1 api "around c" um a]
          save_and_return_session [of api "around c" st1 um a]
        by simp
    next
      case False
      then have n: "\<not> not_a_list (history_file st1)"
        by (simp add: f)
      have "fst (perform c st) = Inr (Some a)"
        using save_and_return_returns [OF n] 2 by simp
      moreover have "conversation_history (snd (perform c st)) =
          conversation_history st @ [entry_of c a]"
        using save_and_return_session [of api "around c" st1 um a] 2 h e [of a] by simp
      moreover have "history_file (snd (perform c st)) =
         (case write_result (around c) of
            Write_ok \<Rightarrow> Holds (JArr (stored (history_file st) @ [entry_of c a]))
          | Open_raises _ \<Rightarrow> history_file st
          | Dump_raises _ msg \<Rightarrow> Unreadable msg)"
        using save_and_return_file [OF n, of api "around c" um a] 2 f e [of a]
        by (simp split: write_outcome.splits)
      ultimately show thesis
        using saved [of a] False by blast
    qed
  qed
qed

lemma stored_simps:
  "stored (Holds (JArr xs)) = xs" "stored Absent = []" "stored (Unreadable m) = []"
  by (simp_all add: stored_def)

lemma not_a_list_simps:
  "\<not> not_a_list (Holds (JArr xs))" "\<not> not_a_list Absent" "\<not> not_a_list (Unreadable m)"
  by (simp_all add: not_a_list_def)

lemma perform_keeps:
  assumes P: "\<And>c a. P (entry_of c a)"
  shows "list_all P (conversation_history st) \<Longrightarrow>
           list_all P (conversation_history (snd (perform c st)))"
    and "list_all P (stored (history_file st)) \<Longrightarrow>
           list_all P (stored (history_file (snd (perform c st))))"
  by (cases c st rule: perform_cases;
      simp add: P stored_simps split: write_outcome.splits)+

lemma snd_run_session_Cons:
  "snd (run_session (c # cs) st) =
     (case fst (perform c st) of
        Inl e \<Rightarrow> snd (perform c st)
      | Inr r \<Rightarrow> snd (run_session cs (snd (perform c st))))"
  by (simp split: prod.splits sum.splits)

lemma fst_run_session_Cons:
  "fst (run_session (c # cs) st) =
     (case fst (perform c st) of
        Inl e \<Rightarrow> [Inl e]
      | Inr r \<Rightarrow> Inr r # fst (run_session cs (snd (perform c st))))"
  by (simp split: prod.splits sum.splits)

lemma run_session_keeps:
  assumes P: "\<And>c a. P (entry_of c a)"
  shows "list_all P (conversation_history st) \<Longrightarrow>
           list_all P (conversation_history (snd (run_session cs st)))"
    and "list_all P (stored (history_file st)) \<Longrightarrow>
           list_all P (stored (history_file (snd (run_session cs st))))"
proof (induction cs arbitrary: st)
  case Nil
  { case 1 then show ?case by simp }
  { case 2 then show ?case by simp }
next
  case (Cons c cs)
  { case 1
    then have "list_all P (conversation_history (snd (perform c st)))"
      using perform_keeps(1) [of P, OF P] by blast
    then show ?case
      using Cons.IH(1) [of "snd (perform c st)"]
      by (simp only: snd_run_session_Cons split: sum.splits) simp }
  { case 2
    then have "list_all P (stored (history_file (snd (perform c st))))"
      using perform_keeps(2) [of P, OF P] by blast
    then show ?case
      using Cons.IH(2) [of "snd (perform c st)"]
      by (simp only: snd_run_session_Cons split: sum.splits) simp }
qed

lemma entry_of_populated: "populated (entry_of c a)"
  by (simp add: entry_of_def populated_def make_entry_def split: operation.splits)

lemma entry_of_mode: "mode_recorded (entry_of c a)"
  by (simp add: entry_of_def mode_recorded_def make_entry_def split: operation.splits)

lemma make_entry_within:
  "text_within 203 ''user_input'' (make_entry ts m u a)"
  "text_within 203 ''ai_response'' (make_entry ts m u a)"
  by (simp_all add: text_within_def make_entry_def)

lemma entry_of_within:
  "text_within 203 ''user_input'' (entry_of c a) \<and> text_within 203 ''ai_response'' (entry_of c a)"
  by (simp add: entry_of_def make_entry_within split: operation.splits)

lemma init_state:
  "AIChatbot_init api_key disk out = Inr st0 \<Longrightarrow>
     conversation_history st0 = [] \<and> history_file st0 = disk \<and> current_mode st0 = None"
  by (auto simp: AIChatbot_init_def split: if_splits)

lemma session_entries_satisfy:
  assumes P: "\<And>c a. P (entry_of c a)"
    and i: "AIChatbot_init api_key disk out = Inr st0"
  shows "\<forall>e\<in>set (conversation_history (snd (run_session calls st0))). P e"
    and "\<forall>e\<in>set (stored (history_file (snd (run_session calls st0)))).
           P e \<or> e \<in> set (stored disk)"
proof -
  from i have h: "conversation_history st0 = []" and f: "history_file st0 = disk"
    using init_state by blast+
  have "list_all P (conversation_history (snd (run_session calls st0)))"
    using run_session_keeps(1) [of P st0 calls] P h by simp
  then show "\<forall>e\<in>set (conversation_history (snd (run_session calls st0))). P e"
    by (simp add: list_all_iff)
  let ?Q = "\<lambda>e. P e \<or> e \<in> set (stored disk)"
  have "list_all ?Q (stored (history_file (snd (run_session calls st0))))"
    using run_session_keeps(2) [of ?Q st0 calls] P f by (simp add: list_all_iff)
  then show "\<forall>e\<in>set (stored (history_file (snd (run_session calls st0)))).
           P e \<or> e \<in> set (stored disk)"
    by (simp add: list_all_iff)
qed

text \<open>
  C8. A call leaves the session list as it was or appends the entry of the operation,
  whose four fields are populated and whose mode is the one the operation assigned before
  the provider call, whatever the mode was before. So in every session, from
  \<open>__init__\<close> on, every entry of the session list has its four fields populated and a
  mode that is \<open>FAQ\<close> or \<open>SUMMARIZE\<close>, and so has every entry of the list on disk that was
  not in the file when the session started.
\<close>

theorem saved_entries_populated:
  "(conversation_history (snd (perform c st)) = conversation_history st \<or>
    (\<exists>a. conversation_history (snd (perform c st)) = conversation_history st @ [entry_of c a])) \<and>
   populated (entry_of c a) \<and> mode_recorded (entry_of c a) \<and>
   (AIChatbot_init api_key disk out = Inr st0 \<longrightarrow>
      (\<forall>e\<in>set (conversation_history (snd (run_session calls st0))).
         populated e \<and> mode_recorded e) \<and>
      (\<forall>e\<in>set (stored (history_file (snd (run_session calls st0)))).
         populated e \<and> mode_recorded e \<or> e \<in> set (stored disk)))"
proof -
  have "conversation_history (snd (perform c st)) = conversation_history st \<or>
    (\<exists>a. conversation_history (snd (perform c st)) = conversation_history st @ [entry_of c a])"
    by (cases c st rule: perform_cases) blast+
  moreover have "\<And>c a. populated (entry_of c a) \<and> mode_recorded (entry_of c a)"
    by (simp add: entry_of_populated entry_of_mode)
  ultimately show ?thesis
    using session_entries_satisfy
      [of "\<lambda>e. populated e \<and> mode_recorded e" api_key disk out st0 calls]
    by blast
qed

theorem saved_entries_populated_witness:
  "AIChatbot_init (Some ''sk-test'') (Holds (JArr [JNull])) [] =
     Inr \<lparr>conversation_history = [], current_mode = None,
          history_file = Holds (JArr [JNull]), console = [Initialized]\<rparr> \<and>
   list_all (\<lambda>e. populated e \<and> mode_recorded e)
     (conversation_history (snd (run_session
        [\<lparr>operation = Answer_faq ''What is a list?'',
          provider = OpenAI (\<lambda>_. Returns [Some ''An ordered collection.'']),
          around = \<lparr>now = ''2025-10-01 12:00:00'', write_result = Write_ok\<rparr>\<rparr>,
         \<lparr>operation = Summarize_text ''A long text.'',
          provider = GenAI (\<lambda>_. Returns \<lparr>text_attr = Some ''Short.'', str_of = ''r''\<rparr>),
          around = \<lparr>now = ''2025-10-01 12:01:00'', write_result = Write_ok\<rparr>\<rparr>]
        \<lparr>conversation_history = [], current_mode = None,
         history_file = Holds (JArr [JNull]), console = [Initialized]\<rparr>))) \<and>
   length (conversation_history (snd (run_session
        [\<lparr>operation = Answer_faq ''What is a list?'',
          provider = OpenAI (\<lambda>_. Returns [Some ''An ordered collection.'']),
          around = \<lparr>now = ''2025-10-01 12:00:00'', write_result = Write_ok\<rparr>\<rparr>,
         \<lparr>operation = Summarize_text ''A long text.'',
          provider = GenAI (\<lambda>_. Returns \<lparr>text_attr = Some ''Short.'', str_of = ''r''\<rparr>),
          around = \<lparr>now = ''2025-10-01 12:01:00'', write_result = Write_ok\<rparr>\<rparr>]
        \<lparr>conversation_history = [], current_mode = None,
         history_file = Holds (JArr [JNull]), console = [Initialized]\<rparr>))) = 2"
proof -
  have i: "AIChatbot_init (Some ''sk-test'') (Holds (JArr [JNull])) [] =
     Inr \<lparr>conversation_history = [], current_mode = None,
          history_file = Holds (JArr [JNull]), console = [Initialized]\<rparr>"
    by (simp add: AIChatbot_init_def)
  have n: "length (conversation_history (snd (run_session
        [\<lparr>operation = Answer_faq ''What is a list?'',
          provider = OpenAI (\<lambda>_. Returns [Some ''An ordered collection.'']),
          around = \<lparr>now = ''2025-10-01 12:00:00'', write_result = Write_ok\<rparr>\<rparr>,
         \<lparr>operation = Summarize_text ''A long text.'',
          provider = GenAI (\<lambda>_. Returns \<lparr>text_attr = Some ''Short.'', str_of = ''r''\<rparr>),
          around = \<lparr>now = ''2025-10-01 12:01:00'', write_result = Write_ok\<rparr>\<rparr>]
        \<lparr>conversation_history = [], current_mode = None,
         history_file = Holds (JArr [JNull]), console = [Initialized]\<rparr>))) = 2"
    by code_simp
  show ?thesis
    using i n
      saved_entries_populated
        [where api_key = "Some ''sk-test''" and disk = "Holds (JArr [JNull])" and out = "[]"
           and st0 = "\<lparr>conversation_history = [], current_mode = None,
                        history_file = Holds (JArr [JNull]), console = [Initialized]\<rparr>"
           and calls =
             "[\<lparr>operation = Answer_faq ''What is a list?'',
                provider = OpenAI (\<lambda>_. Returns [Some ''An ordered collection.'']),
                around = \<lparr>now = ''2025-10-01 12:00:00'', write_result = Write_ok\<rparr>\<rparr>,
               \<lparr>operation = Summarize_text ''A long text.'',
                provider = GenAI (\<lambda>_. Returns \<lparr>text_attr = Some ''Short.'', str_of = ''r''\<rparr>),
                around = \<lparr>now = ''2025-10-01 12:01:00'', write_result = Write_ok\<rparr>\<rparr>]"]
    unfolding list_all_iff by blast
qed

text \<open>
  C10. The two text fields of the entry that \<open>_save_to_history\<close> records are strings of
  at most 203 characters, whatever the lengths of the input and of the response. So in
  every session every entry of the session list is so bounded, and so is every entry of
  the list on disk that was not in the file when the session started.
\<close>

theorem saved_fields_bounded:
  "text_within 203 ''user_input'' (make_entry ts m u a) \<and>
   text_within 203 ''ai_response'' (make_entry ts m u a) \<and>
   conversation_history (snd (save_to_history ev st u a m)) =
     conversation_history st @ [make_entry (now ev) m u a] \<and>
   (AIChatbot_init api_key disk out = Inr st0 \<longrightarrow>
      (\<forall>e\<in>set (conversation_history (snd (run_session calls st0))).
         text_within 203 ''user_input'' e \<and> text_within 203 ''ai_response'' e) \<and>
      (\<forall>e\<in>set (stored (history_file (snd (run_session calls st0)))).
         text_within 203 ''user_input'' e \<and> text_within 203 ''ai_response'' e
         \<or> e \<in> set (stored disk)))"
  using session_entries_satisfy
      [of "\<lambda>e. text_within 203 ''user_input'' e \<and> text_within 203 ''ai_response'' e"
          api_key disk out st0 calls]
    entry_of_within make_entry_within [of ts m u a] save_to_history_session [of ev st u a m]
  by blast

theorem saved_fields_bounded_witness:
  "AIChatbot_init (Some ''sk-test'') Absent [] =
     Inr \<lparr>conversation_history = [], current_mode = None,
          history_file = Absent, console = [Initialized]\<rparr> \<and>
   list_all (\<lambda>e. text_within 203 ''user_input'' e \<and> text_within 203 ''ai_response'' e)
     (conversation_history (snd (run_session
        [\<lparr>operation = Summarize_text (replicate 300 CHR ''x''),
          provider = OpenAI (\<lambda>_. Returns [Some (replicate 250 CHR ''y'')]),
          around = \<lparr>now = ''2025-10-01 12:00:00'', write_result = Write_ok\<rparr>\<rparr>]
        \<lparr>conversation_history = [], current_mode = None,
         history_file = Absent, console = [Initialized]\<rparr>))) \<and>
   conversation_history (snd (run_session
        [\<lparr>operation = Summarize_text (replicate 300 CHR ''x''),
          provider = OpenAI (\<lambda>_. Returns [Some (replicate 250 CHR ''y'')]),
          around = \<lparr>now = ''2025-10-01 12:00:00'', write_result = Write_ok\<rparr>\<rparr>]
        \<lparr>conversation_history = [], current_mode = None,
         history_file = Absent, console = [Initialized]\<rparr>)) =
     [JObj [(''timestamp'', JStr ''2025-10-01 12:00:00''), (''mode'', JStr ''SUMMARIZE''),
            (''user_input'', JStr (take 200 (summarize_prompt (replicate 300 CHR ''x'')) @ ''...'')),
            (''ai_response'', JStr (replicate 200 CHR ''y'' @ ''...''))]]"
proof -
  have i: "AIChatbot_init (Some ''sk-test'') Absent [] =
     Inr \<lparr>conversation_history = [], current_mode = None,
          history_file = Absent, console = [Initialized]\<rparr>"
    by (simp add: AIChatbot_init_def)
  have n: "conversation_history (snd (run_session
        [\<lparr>operation = Summarize_text (replicate 300 CHR ''x''),
          provider = OpenAI (\<lambda>_. Returns [Some (replicate 250 CHR ''y'')]),
          around = \<lparr>now = ''2025-10-01 12:00:00'', write_result = Write_ok\<rparr>\<rparr>]
        \<lparr>conversation_history = [], current_mode = None,
         history_file = Absent, console = [Initialized]\<rparr>)) =
     [JObj [(''timestamp'', JStr ''2025-10-01 12:00:00''), (''mode'', JStr ''SUMMARIZE''),
            (''user_input'', JStr (take 200 (summarize_prompt (replicate 300 CHR ''x'')) @ ''...'')),
            (''ai_response'', JStr (replicate 200 CHR ''y'' @ ''...''))]]"
    by code_simp
  show ?thesis
    using i n
      saved_fields_bounded
        [where api_key = "Some ''sk-test''" and disk = Absent and out = "[]"
           and st0 = "\<lparr>conversation_history = [], current_mode = None,
                        history_file = Absent, console = [Initialized]\<rparr>"
           and calls =
             "[\<lparr>operation = Summarize_text (replicate 300 CHR ''x''),
                provider = OpenAI (\<lambda>_. Returns [Some (replicate 250 CHR ''y'')]),
                around = \<lparr>now = ''2025-10-01 12:00:00'', write_result = Write_ok\<rparr>\<rparr>]"]
    unfolding list_all_iff by blast
qed

lemma entries_of_Nil [simp]: "entries_of cs [] = []"
  by (cases cs) simp_all

lemma unsuccessful_cases:
  "\<not> successful r \<Longrightarrow> (\<exists>e. r = Inl e) \<or> r = Inr None"
  by (cases r rule: successful.cases) simp_all

text \<open>
  When the file is absent, unreadable or holds a list, a session records one entry for
  each successful call, in call order, and none for the others; the file stays so; and
  when every write succeeds the list on disk is the one the session started from, followed
  by these entries.
\<close>

lemma run_session_entries:
  "\<not> not_a_list (history_file st) \<Longrightarrow>
     conversation_history (snd (run_session cs st)) =
       conversation_history st @ entries_of cs (fst (run_session cs st)) \<and>
     length (entries_of cs (fst (run_session cs st))) =
       length (filter successful (fst (run_session cs st))) \<and>
     \<not> not_a_list (history_file (snd (run_session cs st))) \<and>
     (list_all (\<lambda>c. write_result (around c) = Write_ok) cs \<longrightarrow>
        stored (history_file (snd (run_session cs st))) =
          stored (history_file st) @ entries_of cs (fst (run_session cs st)))"
proof (induction cs arbitrary: st)
  case Nil
  then show ?case by simp
next
  case (Cons c cs)
  let ?st = "snd (perform c st)"
  show ?case
  proof (cases c st rule: perform_cases)
    case failed
    from failed(1) consider e where "fst (perform c st) = Inl e"
      | "fst (perform c st) = Inr None"
      using unsuccessful_cases by blast
    then show ?thesis
    proof cases
      case 1
      with failed Cons.prems show ?thesis
        by (simp add: snd_run_session_Cons fst_run_session_Cons del: run_session.simps)
    next
      case 2
      from failed Cons.prems have "\<not> not_a_list (history_file ?st)"
        by simp
      from Cons.IH [OF this] 2 failed show ?thesis
        by (simp add: snd_run_session_Cons fst_run_session_Cons del: run_session.simps)
    qed
  next
    case (blocked a)
    with Cons.prems show ?thesis by simp
  next
    case (saved a)
    have n: "\<not> not_a_list (history_file ?st)"
      using saved(1,4) by (simp add: not_a_list_simps split: write_outcome.splits)
    have w: "write_result (around c) = Write_ok \<Longrightarrow>
        stored (history_file ?st) = stored (history_file st) @ [entry_of c a]"
      using saved(4) by (simp add: stored_simps)
    from Cons.IH [OF n] saved(2,3) w show ?thesis
      by (simp add: snd_run_session_Cons fst_run_session_Cons del: run_session.simps)
  qed
qed

text \<open>
  C6, where the code departs from it. The file holds a JSON object, not a list. The
  provider answers; the entry goes to the session list; \<open>history.append\<close> raises between
  the two \<open>try\<close> blocks of \<open>_save_to_history\<close>; the \<open>except\<close> clause of \<open>send_to_openai\<close>
  reports an error of the provider and returns \<open>None\<close>. The session has no successful
  operation and one entry in its list.
\<close>

theorem session_entry_without_success:
  "AIChatbot_init (Some ''sk-test'') (Holds (JObj [])) [] =
     Inr \<lparr>conversation_history = [], current_mode = None,
          history_file = Holds (JObj []), console = [Initialized]\<rparr> \<and>
   run_session
     [\<lparr>operation = Answer_faq ''hi'',
       provider = OpenAI (\<lambda>_. Returns [Some ''hello'']),
       around = \<lparr>now = ''2025-10-01 12:00:00'', write_result = Write_ok\<rparr>\<rparr>]
     \<lparr>conversation_history = [], current_mode = None,
      history_file = Holds (JObj []), console = [Initialized]\<rparr> =
     ([Inr None],
      \<lparr>conversation_history = [make_entry ''2025-10-01 12:00:00'' (Some ''FAQ'') ''hi'' ''hello''],
       current_mode = Some ''FAQ'',
       history_file = Holds (JObj []),
       console = [Initialized, Processing_question,
         Error_line (''Error communicating with OpenAI API: 'dict' object has no attribute 'append''
                     @ [CHR 0x27])]\<rparr>) \<and>
   length (filter successful [Inr None]) = 0"
  by code_simp

end
